theory Spec2Isabelle
  imports Main
begin

section \<open>The values \<^verbatim>\<open>valuations.py\<close> computes with\<close>

text \<open>
  The module wraps a two-dimensional numpy array in the class \<^verbatim>\<open>ValuationMatrix\<close>.
  Every failure of the Python code is an exception; the model returns it as the left
  summand of a sum type.
\<close>

datatype error = IndexError | ValueError | TypeError | AttributeError

text \<open>
  A two-dimensional \<^verbatim>\<open>np.ndarray\<close>: its rows, and the length of axis 1. The column
  count is kept beside the rows because an array with no row still has one (the shape
  \<^verbatim>\<open>(0, 3)\<close> is not the shape \<^verbatim>\<open>(0, 5)\<close>). The element type is a parameter: the
  module never looks inside an element except to add two of them and, through
  \<^verbatim>\<open>np.array_equal\<close>, to compare two of them.
\<close>

record 'a ndarray =
  ncols :: nat
  rows :: "'a list list"

text \<open>numpy arrays are rectangular: every row has the length of axis 1.\<close>

definition wf_ndarray :: "'a ndarray \<Rightarrow> bool" where
  "wf_ndarray arr = list_all (\<lambda>r. length r = ncols arr) (rows arr)"

definition shape :: "'a ndarray \<Rightarrow> nat \<times> nat" where
  "shape arr = (length (rows arr), ncols arr)"

text \<open>
  An integer index into an axis of length \<open>n\<close>, as numpy (and \<^verbatim>\<open>np.delete\<close>) reads it:
  outside \<open>[-n, n)\<close> it raises IndexError, and a negative one counts from the end.
\<close>

definition normalize_index :: "nat \<Rightarrow> int \<Rightarrow> error + nat" where
  "normalize_index n i =
     (if i < - int n \<or> int n \<le> i then Inl IndexError
      else Inr (nat (if i < 0 then i + int n else i)))"

text \<open>\<^verbatim>\<open>arr[i]\<close> on a two-dimensional array: row \<open>i\<close>.\<close>

definition getitem_row :: "'a ndarray \<Rightarrow> int \<Rightarrow> error + 'a list" where
  "getitem_row arr i =
     (case normalize_index (length (rows arr)) i of
        Inl e \<Rightarrow> Inl e
      | Inr k \<Rightarrow> Inr (rows arr ! k))"

text \<open>\<^verbatim>\<open>row[j]\<close> on a one-dimensional array: element \<open>j\<close>.\<close>

definition getitem_elem :: "'a list \<Rightarrow> int \<Rightarrow> error + 'a" where
  "getitem_elem row j =
     (case normalize_index (length row) j of
        Inl e \<Rightarrow> Inl e
      | Inr k \<Rightarrow> Inr (row ! k))"

text \<open>
  \<^verbatim>\<open>np.array(l)\<close> for a list of lists \<open>l\<close>. Rows of one length give the
  two-dimensional array of those rows. Rows of different lengths raise ValueError
  (numpy 1.24 and later). The empty list gives an array of length 0, whose item 0 is
  out of range; it is written here with no row and no column.
\<close>

definition np_array :: "'a list list \<Rightarrow> error + 'a ndarray" where
  "np_array l =
     (case l of
        [] \<Rightarrow> Inr \<lparr>ncols = 0, rows = []\<rparr>
      | r # rs \<Rightarrow>
          if list_all (\<lambda>r'. length r' = length r) rs
          then Inr \<lparr>ncols = length r, rows = l\<rparr>
          else Inl ValueError)"

text \<open>A list without its item at position \<open>k\<close>.\<close>

definition delete_at :: "nat \<Rightarrow> 'a list \<Rightarrow> 'a list" where
  "delete_at k xs = take k xs @ drop (Suc k) xs"

text \<open>
  \<^verbatim>\<open>np.delete(arr, obj, axis=0)\<close> and \<^verbatim>\<open>np.delete(arr, obj, axis=1)\<close> for an integer
  \<open>obj\<close>: a new array without that row, or without that column. The argument array is
  not changed.
\<close>

definition np_delete_axis0 :: "'a ndarray \<Rightarrow> int \<Rightarrow> error + 'a ndarray" where
  "np_delete_axis0 arr obj =
     (case normalize_index (length (rows arr)) obj of
        Inl e \<Rightarrow> Inl e
      | Inr k \<Rightarrow> Inr \<lparr>ncols = ncols arr, rows = delete_at k (rows arr)\<rparr>)"

definition np_delete_axis1 :: "'a ndarray \<Rightarrow> int \<Rightarrow> error + 'a ndarray" where
  "np_delete_axis1 arr obj =
     (case normalize_index (ncols arr) obj of
        Inl e \<Rightarrow> Inl e
      | Inr k \<Rightarrow> Inr \<lparr>ncols = ncols arr - 1, rows = map (delete_at k) (rows arr)\<rparr>)"

text \<open>
  \<^verbatim>\<open>np.array_equal(a1, a2)\<close>: False when the shapes differ, otherwise whether every
  element of \<^verbatim>\<open>a1 == a2\<close> is true. The elementwise \<^verbatim>\<open>==\<close> is numpy's, not this
  module's, and it is not equality of values: a floating-point NaN is \<^verbatim>\<open>==\<close> to
  nothing, itself included, and an integer element is compared with a floating-point
  one after conversion to the common dtype. It is the parameter \<open>eq\<close>.
\<close>

definition array_equal :: "('a \<Rightarrow> 'a \<Rightarrow> bool) \<Rightarrow> 'a ndarray \<Rightarrow> 'a ndarray \<Rightarrow> bool" where
  "array_equal eq a1 a2 =
     (if shape a1 \<noteq> shape a2 then False
      else list_all2 (\<lambda>r1 r2. list_all2 (\<lambda>x y. eq x y) r1 r2) (rows a1) (rows a2))"

text \<open>
  The elements of a floating-point array, as far as \<^verbatim>\<open>==\<close> tells them apart: NaN or a
  number. \<open>np_eq\<close> is \<^verbatim>\<open>==\<close> on two of them: two numbers are compared by value, with
  no tolerance, and a comparison with NaN is False.
\<close>

datatype 'a scalar = NaN | Num 'a

fun np_eq :: "'a scalar \<Rightarrow> 'a scalar \<Rightarrow> bool" where
  "np_eq (Num x) (Num y) = (x = y)"
| "np_eq _ _ = False"

text \<open>Python's \<^verbatim>\<open>sum\<close>: start from 0 and add the items from left to right.\<close>

definition py_sum :: "'a::{zero,plus} list \<Rightarrow> 'a" where
  "py_sum xs = foldl (\<lambda>acc x. acc + x) 0 xs"

section \<open>Objects and the heap\<close>

text \<open>
  Arrays and \<^verbatim>\<open>ValuationMatrix\<close> instances are Python objects, held by reference. The
  heap is the list of the objects allocated so far, an address is a position in it, and
  allocation appends. An instance holds its three attributes; \<^verbatim>\<open>_v\<close> is a reference
  to the backing array, so two instances can share one array.
\<close>

type_synonym addr = nat

record ValuationMatrix =
  v :: addr
  num_of_agents :: nat
  num_of_objects :: nat

datatype 'a obj = Array "'a ndarray" | Matrix ValuationMatrix

type_synonym 'a heap = "'a obj list"

text \<open>
  \<^verbatim>\<open>x._v\<close>: only a \<^verbatim>\<open>ValuationMatrix\<close> has the attribute. (An address beyond the heap
  does not arise in Python; the model answers like for an object of the wrong class.)
\<close>

definition attr_v :: "'a heap \<Rightarrow> addr \<Rightarrow> error + addr" where
  "attr_v h x =
     (if x < length h
      then (case h ! x of Matrix m \<Rightarrow> Inr (v m) | Array _ \<Rightarrow> Inl AttributeError)
      else Inl AttributeError)"

text \<open>
  Reading the object at an address as an array, for \<^verbatim>\<open>len\<close>, indexing and the numpy
  functions: a \<^verbatim>\<open>ValuationMatrix\<close> has no \<^verbatim>\<open>__len__\<close> and is no array.
\<close>

definition as_array :: "'a heap \<Rightarrow> addr \<Rightarrow> error + 'a ndarray" where
  "as_array h x =
     (if x < length h
      then (case h ! x of Array arr \<Rightarrow> Inr arr | Matrix _ \<Rightarrow> Inl TypeError)
      else Inl TypeError)"

section \<open>The class \<^verbatim>\<open>ValuationMatrix\<close>\<close>

text \<open>
  The constructor's argument: a list of lists (a Python value), or a reference to an
  object, which \<^verbatim>\<open>isinstance\<close> finds to be a \<^verbatim>\<open>ValuationMatrix\<close> or takes for an array.
\<close>

datatype 'a arg = PyList "'a list list" | Ref addr

text \<open>
  \<^verbatim>\<open>ValuationMatrix(valuation_matrix)\<close>. The inner case is the \<^verbatim>\<open>isinstance\<close>
  dispatch of \<^verbatim>\<open>__init__\<close>: a list is converted by \<^verbatim>\<open>np.array\<close> into a new array, an
  instance gives its own backing array (shared, not copied), anything else is used as
  it is. Then the three attributes are set; \<^verbatim>\<open>len(valuation_matrix[0])\<close> reads row 0
  and raises IndexError when there is none. The result is the address of the new
  instance and the heap that holds it; when \<^verbatim>\<open>__init__\<close> raises there is no instance.
\<close>

definition ValuationMatrix_init :: "'a heap \<Rightarrow> 'a arg \<Rightarrow> error + (addr \<times> 'a heap)" where
  "ValuationMatrix_init h valuation_matrix =
     (case
        (case valuation_matrix of
           PyList l \<Rightarrow>
             (case np_array l of
                Inl e \<Rightarrow> Inl e
              | Inr arr \<Rightarrow> Inr (length h, h @ [Array arr]))
         | Ref r \<Rightarrow>
             (case attr_v h r of
                Inr a \<Rightarrow> Inr (a, h)
              | Inl _ \<Rightarrow> Inr (r, h)))
      of
        Inl e \<Rightarrow> Inl e
      | Inr (a, h1) \<Rightarrow>
          (case as_array h1 a of
             Inl e \<Rightarrow> Inl e
           | Inr arr \<Rightarrow>
               (case getitem_row arr 0 of
                  Inl e \<Rightarrow> Inl e
                | Inr row0 \<Rightarrow>
                    Inr (length h1,
                         h1 @ [Matrix \<lparr>v = a, num_of_agents = length (rows arr),
                                       num_of_objects = length row0\<rparr>]))))"

text \<open>\<^verbatim>\<open>self._v[agent][object]\<close>.\<close>

definition value_at :: "'a heap \<Rightarrow> addr \<Rightarrow> int \<Rightarrow> int \<Rightarrow> error + 'a" where
  "value_at h self agent object =
     (case attr_v h self of
        Inl e \<Rightarrow> Inl e
      | Inr a \<Rightarrow>
          (case as_array h a of
             Inl e \<Rightarrow> Inl e
           | Inr arr \<Rightarrow>
               (case getitem_row arr agent of
                  Inl e \<Rightarrow> Inl e
                | Inr row \<Rightarrow> getitem_elem row object)))"

text \<open>
  The list comprehension \<^verbatim>\<open>[self._v[agent][object] for object in bundle]\<close>: the values
  in the order of the bundle, or the first exception.
\<close>

fun bundle_values :: "'a heap \<Rightarrow> addr \<Rightarrow> int \<Rightarrow> int list \<Rightarrow> error + 'a list" where
  "bundle_values h self agent [] = Inr []"
| "bundle_values h self agent (object # bundle) =
     (case value_at h self agent object of
        Inl e \<Rightarrow> Inl e
      | Inr x \<Rightarrow>
          (case bundle_values h self agent bundle of
             Inl e \<Rightarrow> Inl e
           | Inr xs \<Rightarrow> Inr (x # xs)))"

text \<open>\<^verbatim>\<open>agent_value_for_bundle\<close>; the bundle is \<^verbatim>\<open>None\<close> or a list of object indices.\<close>

definition agent_value_for_bundle ::
  "('a::{zero,plus}) heap \<Rightarrow> addr \<Rightarrow> int \<Rightarrow> int list option \<Rightarrow> error + 'a" where
  "agent_value_for_bundle h self agent bundle =
     (case bundle of
        None \<Rightarrow> Inr 0
      | Some b \<Rightarrow>
          (case bundle_values h self agent b of
             Inl e \<Rightarrow> Inl e
           | Inr xs \<Rightarrow> Inr (py_sum xs)))"

text \<open>
  \<^verbatim>\<open>without_agent\<close> and \<^verbatim>\<open>without_object\<close>: \<^verbatim>\<open>np.delete\<close> makes a new array, and the
  constructor is called on it.
\<close>

definition without_agent :: "'a heap \<Rightarrow> addr \<Rightarrow> int \<Rightarrow> error + (addr \<times> 'a heap)" where
  "without_agent h self agent =
     (case attr_v h self of
        Inl e \<Rightarrow> Inl e
      | Inr a \<Rightarrow>
          (case as_array h a of
             Inl e \<Rightarrow> Inl e
           | Inr arr \<Rightarrow>
               (case np_delete_axis0 arr agent of
                  Inl e \<Rightarrow> Inl e
                | Inr arr' \<Rightarrow> ValuationMatrix_init (h @ [Array arr']) (Ref (length h)))))"

definition without_object :: "'a heap \<Rightarrow> addr \<Rightarrow> int \<Rightarrow> error + (addr \<times> 'a heap)" where
  "without_object h self object =
     (case attr_v h self of
        Inl e \<Rightarrow> Inl e
      | Inr a \<Rightarrow>
          (case as_array h a of
             Inl e \<Rightarrow> Inl e
           | Inr arr \<Rightarrow>
               (case np_delete_axis1 arr object of
                  Inl e \<Rightarrow> Inl e
                | Inr arr' \<Rightarrow> ValuationMatrix_init (h @ [Array arr']) (Ref (length h)))))"

text \<open>
  \<^verbatim>\<open>equals\<close>: \<^verbatim>\<open>np.array_equal(self._v, other._v)\<close>, with the elementwise \<^verbatim>\<open>==\<close> of
  the arrays' elements as \<open>eq\<close>.
\<close>

definition equals :: "('a \<Rightarrow> 'a \<Rightarrow> bool) \<Rightarrow> 'a heap \<Rightarrow> addr \<Rightarrow> addr \<Rightarrow> error + bool" where
  "equals eq h self other =
     (case attr_v h self of
        Inl e \<Rightarrow> Inl e
      | Inr a \<Rightarrow>
          (case attr_v h other of
             Inl e \<Rightarrow> Inl e
           | Inr b \<Rightarrow>
               (case as_array h a of
                  Inl e \<Rightarrow> Inl e
                | Inr arr1 \<Rightarrow>
                    (case as_array h b of
                       Inl e \<Rightarrow> Inl e
                     | Inr arr2 \<Rightarrow> Inr (array_equal eq arr1 arr2)))))"

section \<open>Instances in the heap\<close>

text \<open>
  What every successful construction leaves behind: at address \<open>self\<close> the heap holds
  an instance with the attributes \<open>m\<close>, whose \<^verbatim>\<open>_v\<close> is the address of the array
  \<open>arr\<close>; the array is rectangular and has a first row, and the two counts are its
  shape. The theorems below speak of "a ValuationMatrix" through this predicate.
\<close>

definition is_ValuationMatrix ::
  "'a heap \<Rightarrow> addr \<Rightarrow> ValuationMatrix \<Rightarrow> 'a ndarray \<Rightarrow> bool" where
  "is_ValuationMatrix h self m arr \<longleftrightarrow>
     self < length h \<and> h ! self = Matrix m \<and>
     v m < length h \<and> h ! v m = Array arr \<and>
     wf_ndarray arr \<and> rows arr \<noteq> [] \<and>
     num_of_agents m = length (rows arr) \<and> num_of_objects m = ncols arr"

text \<open>
  The heap after the first line of the class's doctest,
  \<^verbatim>\<open>v = ValuationMatrix([[1,4,7],[6,3,0]])\<close>, run on an empty heap: the array at
  address 0 and the instance at address 1.
\<close>

definition doctest_heap :: "int heap" where
  "doctest_heap =
     [Array \<lparr>ncols = 3, rows = [[1, 4, 7], [6, 3, 0]]\<rparr>,
      Matrix \<lparr>v = 0, num_of_agents = 2, num_of_objects = 3\<rparr>]"

section \<open>Basic facts\<close>

lemma doctest_heap_init:
  "ValuationMatrix_init [] (PyList [[1, 4, 7], [6, 3, 0]]) = Inr (1, doctest_heap)"
  by (simp add: ValuationMatrix_init_def np_array_def as_array_def getitem_row_def
      normalize_index_def doctest_heap_def)

lemma doctest_heap_matrix:
  "is_ValuationMatrix doctest_heap 1 \<lparr>v = 0, num_of_agents = 2, num_of_objects = 3\<rparr>
     \<lparr>ncols = 3, rows = [[1, 4, 7], [6, 3, 0]]\<rparr>"
  by (simp add: is_ValuationMatrix_def doctest_heap_def wf_ndarray_def)

text \<open>
  The constructor establishes \<open>is_ValuationMatrix\<close>: on a heap whose arrays are
  rectangular, whatever it returns is an instance in that state.
\<close>

lemma np_array_wf:
  assumes "np_array t = Inr arr"
  shows "wf_ndarray arr"
  using assms
  by (auto simp add: np_array_def wf_ndarray_def split: list.splits if_splits)

lemma init_tail:
  assumes "as_array h0 a = Inr arr" and "wf_ndarray arr"
    and "(case getitem_row arr 0 of
            Inl e \<Rightarrow> Inl e
          | Inr row0 \<Rightarrow>
              Inr (length h0,
                   h0 @ [Matrix \<lparr>v = a, num_of_agents = length (rows arr),
                                  num_of_objects = length row0\<rparr>])) = Inr (s, h1)"
  shows "\<exists>m. is_ValuationMatrix h1 s m arr"
proof -
  from assms(3) obtain row0 where row: "getitem_row arr 0 = Inr row0"
    and res: "s = length h0"
      "h1 = h0 @ [Matrix \<lparr>v = a, num_of_agents = length (rows arr),
                            num_of_objects = length row0\<rparr>]"
    by (cases "getitem_row arr 0") auto
  have a: "a < length h0" "h0 ! a = Array arr"
    using assms(1) by (auto simp add: as_array_def split: if_splits obj.splits)
  from row obtain rs where rows: "rows arr = row0 # rs"
    by (cases "rows arr") (auto simp add: getitem_row_def normalize_index_def split: if_splits)
  have "length row0 = ncols arr"
    using assms(2) rows by (simp add: wf_ndarray_def)
  then have "is_ValuationMatrix h1 s
      \<lparr>v = a, num_of_agents = length (rows arr), num_of_objects = length row0\<rparr> arr"
    using a assms(2) rows res by (simp add: is_ValuationMatrix_def nth_append)
  then show ?thesis by blast
qed

lemma init_gives_ValuationMatrix:
  assumes "ValuationMatrix_init h x = Inr (s, h1)"
    and "\<forall>a arr. a < length h \<and> h ! a = Array arr \<longrightarrow> wf_ndarray arr"
  shows "\<exists>m arr. is_ValuationMatrix h1 s m arr"
proof (cases x)
  case (PyList t)
  show ?thesis
  proof (cases "np_array t")
    case (Inl e)
    with assms(1) PyList show ?thesis by (simp add: ValuationMatrix_init_def)
  next
    case (Inr arr)
    have "as_array (h @ [Array arr]) (length h) = Inr arr"
      by (simp add: as_array_def)
    moreover have "wf_ndarray arr" using Inr by (rule np_array_wf)
    moreover have "(case getitem_row arr 0 of
            Inl e \<Rightarrow> Inl e
          | Inr row0 \<Rightarrow>
              Inr (length (h @ [Array arr]),
                   (h @ [Array arr]) @ [Matrix \<lparr>v = length h, num_of_agents = length (rows arr),
                                  num_of_objects = length row0\<rparr>])) = Inr (s, h1)"
      using assms(1) PyList Inr by (simp add: ValuationMatrix_init_def as_array_def)
    ultimately show ?thesis using init_tail by blast
  qed
next
  case (Ref r)
  define a where "a = (case attr_v h r of Inr a' \<Rightarrow> a' | Inl _ \<Rightarrow> r)"
  have unf: "(case as_array h a of
             Inl e \<Rightarrow> Inl e
           | Inr arr \<Rightarrow>
               (case getitem_row arr 0 of
                  Inl e \<Rightarrow> Inl e
                | Inr row0 \<Rightarrow>
                    Inr (length h,
                         h @ [Matrix \<lparr>v = a, num_of_agents = length (rows arr),
                                       num_of_objects = length row0\<rparr>]))) = Inr (s, h1)"
  proof (cases "attr_v h r")
    case (Inl e)
    then have "a = r" by (simp add: a_def)
    with assms(1) Ref Inl show ?thesis
      unfolding \<open>a = r\<close> by (simp add: ValuationMatrix_init_def)
  next
    case (Inr a')
    then have "a = a'" by (simp add: a_def)
    with assms(1) Ref Inr show ?thesis
      unfolding \<open>a = a'\<close> by (simp add: ValuationMatrix_init_def)
  qed
  then obtain arr where arr: "as_array h a = Inr arr"
    by (cases "as_array h a") auto
  then have "a < length h" "h ! a = Array arr"
    by (auto simp add: as_array_def split: if_splits obj.splits)
  then have "wf_ndarray arr" using assms(2) by blast
  with arr unf show ?thesis using init_tail[of h a arr s h1] by auto
qed

lemma self_array:
  assumes "is_ValuationMatrix h self m arr"
  shows "attr_v h self = Inr (v m)" "as_array h (v m) = Inr arr"
  using assms by (simp_all add: is_ValuationMatrix_def attr_v_def as_array_def)

lemma value_at_valid:
  assumes "is_ValuationMatrix h self m arr" "0 \<le> a" "a < int (num_of_agents m)"
  shows "value_at h self a ob = getitem_elem (rows arr ! nat a) ob"
  using assms
  by (simp add: is_ValuationMatrix_def value_at_def attr_v_def as_array_def getitem_row_def
      normalize_index_def)

lemma row_length:
  assumes "is_ValuationMatrix h self m arr" "0 \<le> a" "a < int (num_of_agents m)"
  shows "length (rows arr ! nat a) = num_of_objects m"
  using assms
  by (auto simp add: is_ValuationMatrix_def wf_ndarray_def list_all_length)

lemma py_sum_sum_list: "py_sum (xs :: ('a::monoid_add) list) = sum_list xs"
proof -
  have "foldl (\<lambda>acc x. acc + x) s xs = s + sum_list xs" for s :: 'a
    by (induction xs arbitrary: s) (simp_all add: add.assoc)
  then show ?thesis by (simp add: py_sum_def)
qed

lemma bundle_values_valid:
  assumes "is_ValuationMatrix h self m arr" "0 \<le> a" "a < int (num_of_agents m)"
    and "\<forall>ob\<in>set B. 0 \<le> ob \<and> ob < int (num_of_objects m)"
  shows "bundle_values h self a B = Inr (map (\<lambda>ob. rows arr ! nat a ! nat ob) B)"
  using assms(4)
proof (induction B)
  case Nil
  then show ?case by simp
next
  case (Cons ob B)
  then show ?case
    using value_at_valid[OF assms(1-3)] row_length[OF assms(1-3)]
    by (simp add: getitem_elem_def normalize_index_def)
qed

section \<open>The value of a bundle\<close>

text \<open>
  C1. For a ValuationMatrix, an agent index \<open>a\<close> in \<open>[0, num_of_agents)\<close> and a bundle
  \<open>B\<close> whose items are object indices in \<open>[0, num_of_objects)\<close>,
  \<^verbatim>\<open>agent_value_for_bundle(a, B)\<close> returns the sum of \<open>v[a][o]\<close> over the items \<open>o\<close> of
  \<open>B\<close>. The bundle is a list and the sum runs over its positions, so an index that
  occurs twice is added twice.
\<close>

theorem agent_value_for_bundle_sum:
  fixes h :: "('a::monoid_add) heap"
  assumes "is_ValuationMatrix h self m arr"
    and "0 \<le> a" and "a < int (num_of_agents m)"
    and "\<forall>ob\<in>set B. 0 \<le> ob \<and> ob < int (num_of_objects m)"
  shows "agent_value_for_bundle h self a (Some B)
           = Inr (sum_list (map (\<lambda>ob. rows arr ! nat a ! nat ob) B))"
  using bundle_values_valid[OF assms]
  by (simp add: agent_value_for_bundle_def py_sum_sum_list)

theorem agent_value_for_bundle_sum_witness:
  "is_ValuationMatrix doctest_heap 1 \<lparr>v = 0, num_of_agents = 2, num_of_objects = 3\<rparr>
     \<lparr>ncols = 3, rows = [[1, 4, 7], [6, 3, 0]]\<rparr>
   \<and> agent_value_for_bundle doctest_heap 1 0 (Some [0, 2, 0]) = Inr 9"
  using agent_value_for_bundle_sum [OF doctest_heap_matrix, of 0 "[0, 2, 0]"]
    doctest_heap_matrix
  by simp

text \<open>
  C2. \<^verbatim>\<open>agent_value_for_bundle(a, None)\<close> returns 0, and so does
  \<^verbatim>\<open>agent_value_for_bundle(a, [])\<close>: the empty bundle is handled like \<^verbatim>\<open>None\<close>.
  Neither call reads the matrix, so this holds for every heap, instance and agent
  index, the valid ones among them.
\<close>

theorem agent_value_for_bundle_empty:
  "agent_value_for_bundle h self a None = Inr 0
   \<and> agent_value_for_bundle h self a (Some []) = Inr 0
   \<and> agent_value_for_bundle h self a (Some []) = agent_value_for_bundle h self a None"
  by (simp add: agent_value_for_bundle_def py_sum_def)

section \<open>Removing an agent or an object\<close>

lemma init_Ref_array:
  assumes "r < length h" "h ! r = Array arr" "rows arr = r0 # rs"
  shows "ValuationMatrix_init h (Ref r) =
           Inr (length h, h @ [Matrix \<lparr>v = r, num_of_agents = length (rows arr),
                                        num_of_objects = length r0\<rparr>])"
  using assms
  by (simp add: ValuationMatrix_init_def attr_v_def as_array_def getitem_row_def
      normalize_index_def)

lemma init_Ref_array_empty:
  assumes "r < length h" "h ! r = Array arr" "rows arr = []"
  shows "ValuationMatrix_init h (Ref r) = Inl IndexError"
  using assms
  by (simp add: ValuationMatrix_init_def attr_v_def as_array_def getitem_row_def
      normalize_index_def)

lemma delete_at_length: "k < length xs \<Longrightarrow> length (delete_at k xs) = length xs - 1"
  by (simp add: delete_at_def)

lemma delete_at_nth:
  "k < length xs \<Longrightarrow> i < length xs - 1 \<Longrightarrow>
     delete_at k xs ! i = (if i < k then xs ! i else xs ! Suc i)"
  by (simp add: delete_at_def nth_append min_def)

text \<open>
  C3, as the code has it. The claim is stated for every ValuationMatrix and every agent
  index in \<open>[0, num_of_agents)\<close>; with a single agent the call raises instead of
  returning (the counterexample below: \<^verbatim>\<open>ValuationMatrix([[6,3,0]]).without_agent(0)\<close>).
  With at least two agents, \<^verbatim>\<open>without_agent(a)\<close> returns a new instance on a new
  array: the old heap is extended by the array and the instance, the array's row \<open>i\<close>
  is the old row \<open>i\<close> for \<open>i < a\<close> and the old row \<open>i + 1\<close> from \<open>a\<close> on,
  \<^verbatim>\<open>num_of_agents\<close> is one less and \<^verbatim>\<open>num_of_objects\<close> is the same.
\<close>

theorem without_agent_deletes_row:
  assumes "is_ValuationMatrix h self m arr"
    and "0 \<le> a" and "a < int (num_of_agents m)"
    and "2 \<le> num_of_agents m"
  shows "without_agent h self a =
           Inr (Suc (length h),
                h @ [Array \<lparr>ncols = ncols arr, rows = delete_at (nat a) (rows arr)\<rparr>,
                     Matrix \<lparr>v = length h, num_of_agents = num_of_agents m - 1,
                             num_of_objects = num_of_objects m\<rparr>])
         \<and> length (delete_at (nat a) (rows arr)) = num_of_agents m - 1
         \<and> (\<forall>i < num_of_agents m - 1.
               delete_at (nat a) (rows arr) ! i
                 = (if i < nat a then rows arr ! i else rows arr ! Suc i))"
proof -
  let ?rows' = "delete_at (nat a) (rows arr)"
  let ?arr' = "\<lparr>ncols = ncols arr, rows = ?rows'\<rparr>"
  have n: "num_of_agents m = length (rows arr)" and k: "nat a < length (rows arr)"
    and wf: "wf_ndarray arr" and c: "num_of_objects m = ncols arr"
    using assms by (simp_all add: is_ValuationMatrix_def)
  have len: "length ?rows' = num_of_agents m - 1"
    using k n by (simp add: delete_at_length)
  have nth: "\<forall>i < num_of_agents m - 1.
      ?rows' ! i = (if i < nat a then rows arr ! i else rows arr ! Suc i)"
    using k n by (simp add: delete_at_nth)
  have del: "np_delete_axis0 arr a = Inr ?arr'"
    using assms(2,3) n by (simp add: np_delete_axis0_def normalize_index_def)
  from len assms(4) obtain r0 rs where r0: "?rows' = r0 # rs"
    by (cases ?rows') auto
  have "r0 \<in> set (rows arr)"
    using r0
    by (metis delete_at_def in_set_dropD in_set_takeD list.set_intros(1) set_append Un_iff)
  then have lr0: "length r0 = ncols arr"
    using wf by (simp add: wf_ndarray_def list_all_iff)
  have "ValuationMatrix_init (h @ [Array ?arr']) (Ref (length h)) =
          Inr (length (h @ [Array ?arr']),
               (h @ [Array ?arr']) @
                 [Matrix \<lparr>v = length h, num_of_agents = length (rows ?arr'),
                          num_of_objects = length r0\<rparr>])"
    by (rule init_Ref_array) (simp_all add: r0)
  then have "without_agent h self a =
           Inr (Suc (length h),
                h @ [Array ?arr',
                     Matrix \<lparr>v = length h, num_of_agents = num_of_agents m - 1,
                             num_of_objects = num_of_objects m\<rparr>])"
    using self_array[OF assms(1)] del len lr0 c
    by (simp add: without_agent_def)
  with len nth show ?thesis by simp
qed

theorem without_agent_deletes_row_witness:
  "is_ValuationMatrix doctest_heap 1 \<lparr>v = 0, num_of_agents = 2, num_of_objects = 3\<rparr>
     \<lparr>ncols = 3, rows = [[1, 4, 7], [6, 3, 0]]\<rparr>
   \<and> (0::int) \<le> 0 \<and> (0::int) < int 2 \<and> (2::nat) \<le> 2
   \<and> without_agent doctest_heap 1 0 =
       Inr (3, doctest_heap @ [Array \<lparr>ncols = 3, rows = [[6, 3, 0]]\<rparr>,
                               Matrix \<lparr>v = 2, num_of_agents = 1, num_of_objects = 3\<rparr>])"
proof -
  have "without_agent doctest_heap 1 0 =
       Inr (Suc (length doctest_heap),
            doctest_heap @
              [Array \<lparr>ncols = ncols \<lparr>ncols = 3, rows = [[1, 4, 7], [6, 3, 0::int]]\<rparr>,
                 rows = delete_at (nat 0)
                          (rows \<lparr>ncols = 3, rows = [[1, 4, 7], [6, 3, 0::int]]\<rparr>)\<rparr>,
               Matrix \<lparr>v = length doctest_heap,
                 num_of_agents =
                   num_of_agents \<lparr>v = 0, num_of_agents = 2, num_of_objects = 3\<rparr> - 1,
                 num_of_objects =
                   num_of_objects \<lparr>v = 0, num_of_agents = 2, num_of_objects = 3\<rparr>\<rparr>])"
    using without_agent_deletes_row [OF doctest_heap_matrix, of 0] by simp
  moreover have "length doctest_heap = 2" by (simp add: doctest_heap_def)
  moreover have "delete_at 0 [[1, 4, 7], [6, 3, 0::int]] = [[6, 3, 0]]"
    by (simp add: delete_at_def)
  ultimately show ?thesis using doctest_heap_matrix by simp
qed

theorem without_agent_single_counterexample:
  "ValuationMatrix_init [] (PyList [[6, 3, 0 :: int]])
     = Inr (1, [Array \<lparr>ncols = 3, rows = [[6, 3, 0]]\<rparr>,
                Matrix \<lparr>v = 0, num_of_agents = 1, num_of_objects = 3\<rparr>])
   \<and> without_agent [Array \<lparr>ncols = 3, rows = [[6, 3, 0 :: int]]\<rparr>,
                     Matrix \<lparr>v = 0, num_of_agents = 1, num_of_objects = 3\<rparr>] 1 0
     = Inl IndexError"
  by (simp add: ValuationMatrix_init_def np_array_def as_array_def attr_v_def getitem_row_def
      normalize_index_def without_agent_def np_delete_axis0_def delete_at_def)

lemma without_object_result:
  assumes "is_ValuationMatrix h self m arr"
    and "0 \<le> ob" and "ob < int (num_of_objects m)"
  shows "without_object h self ob =
           Inr (Suc (length h),
                h @ [Array \<lparr>ncols = ncols arr - 1,
                            rows = map (delete_at (nat ob)) (rows arr)\<rparr>,
                     Matrix \<lparr>v = length h, num_of_agents = num_of_agents m,
                             num_of_objects = num_of_objects m - 1\<rparr>])"
proof -
  let ?rows' = "map (delete_at (nat ob)) (rows arr)"
  let ?arr' = "\<lparr>ncols = ncols arr - 1, rows = ?rows'\<rparr>"
  have n: "num_of_agents m = length (rows arr)" and wf: "wf_ndarray arr"
    and c: "num_of_objects m = ncols arr"
    using assms(1) by (simp_all add: is_ValuationMatrix_def)
  from assms(1) obtain q0 qs where q: "rows arr = q0 # qs"
    by (cases "rows arr") (auto simp add: is_ValuationMatrix_def)
  have "length q0 = ncols arr"
    using wf q by (simp add: wf_ndarray_def)
  then have lr0: "length (delete_at (nat ob) q0) = num_of_objects m - 1"
    using assms(2,3) c by (simp add: delete_at_length)
  have del: "np_delete_axis1 arr ob = Inr ?arr'"
    using assms(2,3) c by (simp add: np_delete_axis1_def normalize_index_def)
  have "ValuationMatrix_init (h @ [Array ?arr']) (Ref (length h)) =
          Inr (length (h @ [Array ?arr']),
               (h @ [Array ?arr']) @
                 [Matrix \<lparr>v = length h, num_of_agents = length (rows ?arr'),
                          num_of_objects = length (delete_at (nat ob) q0)\<rparr>])"
    by (rule init_Ref_array [where rs = "map (delete_at (nat ob)) qs"]) (simp_all add: q)
  then show ?thesis
    using self_array[OF assms(1)] del lr0 n
    by (simp add: without_object_def)
qed

text \<open>
  C4. For a ValuationMatrix and an object index \<open>o\<close> in \<open>[0, num_of_objects)\<close>,
  \<^verbatim>\<open>without_object(o)\<close> returns a new instance on a new array: the old heap is
  extended by the array and the instance, every row of the array is the old row
  without its item \<open>o\<close> (item \<open>j\<close> is the old item \<open>j\<close> for \<open>j < o\<close> and the old
  item \<open>j + 1\<close> from \<open>o\<close> on), \<^verbatim>\<open>num_of_objects\<close> is one less and
  \<^verbatim>\<open>num_of_agents\<close> is the same.
\<close>

theorem without_object_deletes_column:
  assumes "is_ValuationMatrix h self m arr"
    and "0 \<le> ob" and "ob < int (num_of_objects m)"
  shows "without_object h self ob =
           Inr (Suc (length h),
                h @ [Array \<lparr>ncols = ncols arr - 1,
                            rows = map (delete_at (nat ob)) (rows arr)\<rparr>,
                     Matrix \<lparr>v = length h, num_of_agents = num_of_agents m,
                             num_of_objects = num_of_objects m - 1\<rparr>])
         \<and> length (map (delete_at (nat ob)) (rows arr)) = num_of_agents m
         \<and> (\<forall>i < num_of_agents m.
               length (map (delete_at (nat ob)) (rows arr) ! i) = num_of_objects m - 1
               \<and> (\<forall>j < num_of_objects m - 1.
                     map (delete_at (nat ob)) (rows arr) ! i ! j
                       = (if j < nat ob then rows arr ! i ! j else rows arr ! i ! Suc j)))"
proof -
  let ?rows' = "map (delete_at (nat ob)) (rows arr)"
  have n: "num_of_agents m = length (rows arr)"
    and wf: "wf_ndarray arr" and c: "num_of_objects m = ncols arr"
    using assms(1) by (simp_all add: is_ValuationMatrix_def)
  have k: "nat ob < ncols arr" using assms(2,3) c by simp
  have rowlen: "length (rows arr ! i) = ncols arr" if "i < length (rows arr)" for i
    using wf that by (simp add: wf_ndarray_def list_all_length)
  have cell: "length (?rows' ! i) = num_of_objects m - 1
      \<and> (\<forall>j < num_of_objects m - 1.
            ?rows' ! i ! j = (if j < nat ob then rows arr ! i ! j else rows arr ! i ! Suc j))"
    if i: "i < num_of_agents m" for i
  proof -
    have il: "i < length (rows arr)" using i n by simp
    have r: "?rows' ! i = delete_at (nat ob) (rows arr ! i)" using il by simp
    have kl: "nat ob < length (rows arr ! i)" using k rowlen[OF il] by simp
    have "length (delete_at (nat ob) (rows arr ! i)) = num_of_objects m - 1"
      using delete_at_length[OF kl] rowlen[OF il] c by simp
    moreover have "delete_at (nat ob) (rows arr ! i) ! j
        = (if j < nat ob then rows arr ! i ! j else rows arr ! i ! Suc j)"
      if "j < num_of_objects m - 1" for j
      using delete_at_nth[OF kl, of j] that rowlen[OF il] c by simp
    ultimately show ?thesis unfolding r by blast
  qed
  have "length ?rows' = num_of_agents m" using n by simp
  with without_object_result[OF assms] cell show ?thesis by blast
qed

theorem without_object_deletes_column_witness:
  "is_ValuationMatrix doctest_heap 1 \<lparr>v = 0, num_of_agents = 2, num_of_objects = 3\<rparr>
     \<lparr>ncols = 3, rows = [[1, 4, 7], [6, 3, 0]]\<rparr>
   \<and> (0::int) \<le> 1 \<and> (1::int) < int 3
   \<and> without_object doctest_heap 1 1 =
       Inr (3, doctest_heap @ [Array \<lparr>ncols = 2, rows = [[1, 7], [6, 0]]\<rparr>,
                               Matrix \<lparr>v = 2, num_of_agents = 2, num_of_objects = 2\<rparr>])"
proof -
  have "without_object doctest_heap 1 1 =
       Inr (Suc (length doctest_heap),
            doctest_heap @
              [Array \<lparr>ncols = ncols \<lparr>ncols = 3, rows = [[1, 4, 7], [6, 3, 0::int]]\<rparr> - 1,
                 rows = map (delete_at (nat 1))
                          (rows \<lparr>ncols = 3, rows = [[1, 4, 7], [6, 3, 0::int]]\<rparr>)\<rparr>,
               Matrix \<lparr>v = length doctest_heap,
                 num_of_agents =
                   num_of_agents \<lparr>v = 0, num_of_agents = 2, num_of_objects = 3\<rparr>,
                 num_of_objects =
                   num_of_objects \<lparr>v = 0, num_of_agents = 2, num_of_objects = 3\<rparr> - 1\<rparr>])"
    using without_object_deletes_column [OF doctest_heap_matrix, of 1] by simp
  moreover have "length doctest_heap = 2" by (simp add: doctest_heap_def)
  moreover have "map (delete_at (Suc 0)) [[1, 4, 7], [6, 3, 0::int]] = [[1, 7], [6, 0]]"
    by (simp add: delete_at_def)
  ultimately show ?thesis using doctest_heap_matrix by simp
qed

text \<open>
  C9, as the code has it. The claim says that removing the only agent returns a matrix
  with no agent and the old object count. The array \<^verbatim>\<open>np.delete\<close> makes does have no
  row and the old number of columns, but the constructor then reads its row 0 and
  raises IndexError: no instance is returned.
\<close>

theorem without_agent_last_agent_raises:
  assumes "is_ValuationMatrix h self m arr"
    and "num_of_agents m = 1"
  shows "np_delete_axis0 arr 0 = Inr \<lparr>ncols = num_of_objects m, rows = []\<rparr>
         \<and> without_agent h self 0 = Inl IndexError"
proof -
  have n: "length (rows arr) = 1" and c: "num_of_objects m = ncols arr"
    using assms by (simp_all add: is_ValuationMatrix_def)
  then obtain r where r: "rows arr = [r]"
    by (cases "rows arr") auto
  have del: "np_delete_axis0 arr 0 = Inr \<lparr>ncols = num_of_objects m, rows = []\<rparr>"
    using r c by (simp add: np_delete_axis0_def normalize_index_def delete_at_def)
  have "ValuationMatrix_init (h @ [Array \<lparr>ncols = num_of_objects m, rows = []\<rparr>])
          (Ref (length h)) = Inl IndexError"
    by (rule init_Ref_array_empty [where arr = "\<lparr>ncols = num_of_objects m, rows = []\<rparr>"])
      simp_all
  then have "without_agent h self 0 = Inl IndexError"
    using self_array[OF assms(1)] del by (simp add: without_agent_def)
  with del show ?thesis by simp
qed

theorem without_agent_last_agent_raises_witness:
  "is_ValuationMatrix [Array \<lparr>ncols = 2, rows = [[5, 8 :: int]]\<rparr>,
                       Matrix \<lparr>v = 0, num_of_agents = 1, num_of_objects = 2\<rparr>] 1
     \<lparr>v = 0, num_of_agents = 1, num_of_objects = 2\<rparr> \<lparr>ncols = 2, rows = [[5, 8]]\<rparr>
   \<and> np_delete_axis0 \<lparr>ncols = 2, rows = [[5, 8 :: int]]\<rparr> 0 = Inr \<lparr>ncols = 2, rows = []\<rparr>
   \<and> without_agent [Array \<lparr>ncols = 2, rows = [[5, 8 :: int]]\<rparr>,
                     Matrix \<lparr>v = 0, num_of_agents = 1, num_of_objects = 2\<rparr>] 1 0
       = Inl IndexError"
proof -
  have inv: "is_ValuationMatrix [Array \<lparr>ncols = 2, rows = [[5, 8 :: int]]\<rparr>,
                       Matrix \<lparr>v = 0, num_of_agents = 1, num_of_objects = 2\<rparr>] 1
     \<lparr>v = 0, num_of_agents = 1, num_of_objects = 2\<rparr> \<lparr>ncols = 2, rows = [[5, 8]]\<rparr>"
    by (simp add: is_ValuationMatrix_def wf_ndarray_def)
  show ?thesis
    using without_agent_last_agent_raises [OF inv] inv by simp
qed

theorem without_agent_last_agent_counterexample:
  "ValuationMatrix_init [] (PyList [[5, 8 :: int]])
     = Inr (1, [Array \<lparr>ncols = 2, rows = [[5, 8]]\<rparr>,
                Matrix \<lparr>v = 0, num_of_agents = 1, num_of_objects = 2\<rparr>])
   \<and> num_of_agents \<lparr>v = 0, num_of_agents = 1, num_of_objects = 2\<rparr> = 1
   \<and> without_agent [Array \<lparr>ncols = 2, rows = [[5, 8 :: int]]\<rparr>,
                     Matrix \<lparr>v = 0, num_of_agents = 1, num_of_objects = 2\<rparr>] 1 0
     = Inl IndexError"
  by (simp add: ValuationMatrix_init_def np_array_def as_array_def attr_v_def getitem_row_def
      normalize_index_def without_agent_def np_delete_axis0_def delete_at_def)

text \<open>
  C10. For a ValuationMatrix with one object (it has at least one agent, as every
  instance has), \<^verbatim>\<open>without_object(0)\<close> does not raise: it returns a new instance with
  the same \<^verbatim>\<open>num_of_agents\<close> and with \<^verbatim>\<open>num_of_objects = 0\<close>, on an array of that many
  empty rows.
\<close>

theorem without_object_last_object:
  assumes "is_ValuationMatrix h self m arr"
    and "num_of_objects m = 1"
  shows "without_object h self 0 =
           Inr (Suc (length h),
                h @ [Array \<lparr>ncols = 0, rows = replicate (num_of_agents m) []\<rparr>,
                     Matrix \<lparr>v = length h, num_of_agents = num_of_agents m,
                             num_of_objects = 0\<rparr>])"
proof -
  have n: "num_of_agents m = length (rows arr)" and ne: "rows arr \<noteq> []"
    and wf: "wf_ndarray arr" and c: "ncols arr = 1"
    using assms by (simp_all add: is_ValuationMatrix_def)
  have "\<forall>r \<in> set (rows arr). delete_at 0 r = []"
    using wf c by (auto simp add: wf_ndarray_def list_all_iff delete_at_def)
  then have "map (delete_at 0) (rows arr) = replicate (length (rows arr)) []"
    by (simp add: map_replicate_const [symmetric])
  then show ?thesis
    using without_object_result [OF assms(1), of 0] assms(2) n c by simp
qed

theorem without_object_last_object_witness:
  "is_ValuationMatrix [Array \<lparr>ncols = 1, rows = [[6 :: int], [3]]\<rparr>,
                       Matrix \<lparr>v = 0, num_of_agents = 2, num_of_objects = 1\<rparr>] 1
     \<lparr>v = 0, num_of_agents = 2, num_of_objects = 1\<rparr> \<lparr>ncols = 1, rows = [[6], [3]]\<rparr>
   \<and> without_object [Array \<lparr>ncols = 1, rows = [[6 :: int], [3]]\<rparr>,
                      Matrix \<lparr>v = 0, num_of_agents = 2, num_of_objects = 1\<rparr>] 1 0
       = Inr (3, [Array \<lparr>ncols = 1, rows = [[6], [3]]\<rparr>,
                  Matrix \<lparr>v = 0, num_of_agents = 2, num_of_objects = 1\<rparr>,
                  Array \<lparr>ncols = 0, rows = [[], []]\<rparr>,
                  Matrix \<lparr>v = 2, num_of_agents = 2, num_of_objects = 0\<rparr>])"
proof -
  have inv: "is_ValuationMatrix [Array \<lparr>ncols = 1, rows = [[6 :: int], [3]]\<rparr>,
                       Matrix \<lparr>v = 0, num_of_agents = 2, num_of_objects = 1\<rparr>] 1
     \<lparr>v = 0, num_of_agents = 2, num_of_objects = 1\<rparr> \<lparr>ncols = 1, rows = [[6], [3]]\<rparr>"
    by (simp add: is_ValuationMatrix_def wf_ndarray_def)
  have "replicate 2 ([]::int list) = [[], []]" by (simp add: numeral_2_eq_2)
  then show ?thesis
    using without_object_last_object [OF inv] inv by simp
qed

section \<open>The source instance is left as it was\<close>

lemma init_extends:
  assumes "ValuationMatrix_init h x = Inr (r, h1)"
  shows "\<exists>xs. h1 = h @ xs"
  using assms
  by (auto simp add: ValuationMatrix_init_def split: arg.splits sum.splits prod.splits)

lemma without_agent_extends:
  assumes "without_agent h self a = Inr (r, h1)"
  shows "\<exists>xs. h1 = h @ xs"
proof -
  from assms obtain arr' where
    "ValuationMatrix_init (h @ [Array arr']) (Ref (length h)) = Inr (r, h1)"
    by (auto simp add: without_agent_def split: sum.splits)
  from init_extends[OF this] show ?thesis by auto
qed

lemma without_object_extends:
  assumes "without_object h self ob = Inr (r, h1)"
  shows "\<exists>xs. h1 = h @ xs"
proof -
  from assms obtain arr' where
    "ValuationMatrix_init (h @ [Array arr']) (Ref (length h)) = Inr (r, h1)"
    by (auto simp add: without_object_def split: sum.splits)
  from init_extends[OF this] show ?thesis by auto
qed

lemma is_ValuationMatrix_append:
  assumes "is_ValuationMatrix h self m arr"
  shows "is_ValuationMatrix (h @ xs) self m arr"
  using assms by (simp add: is_ValuationMatrix_def nth_append)

lemma equals_matrices:
  assumes "is_ValuationMatrix h s1 m1 a1" and "is_ValuationMatrix h s2 m2 a2"
  shows "equals eq h s1 s2 = Inr (array_equal eq a1 a2)"
  using self_array[OF assms(1)] self_array[OF assms(2)]
  by (simp add: equals_def)

text \<open>
  C5. A call of \<^verbatim>\<open>without_agent\<close> or of \<^verbatim>\<open>without_object\<close> that returns leaves every
  object that existed before the call as it was: the heap after the call is the heap
  before it with new objects appended. So the instance \<open>self\<close> has the same attributes
  and the same backing array, and it still \<^verbatim>\<open>equals\<close> a copy \<open>c\<close> of it taken before the
  call, whatever the elementwise \<^verbatim>\<open>==\<close> is. (A call that raises returns no heap at
  all: the caller goes on with the old one.)
\<close>

theorem reduction_leaves_source_unchanged:
  assumes "is_ValuationMatrix h self m arr"
    and "is_ValuationMatrix h c mc arrc" and "equals eq h self c = Inr True"
    and "without_agent h self a = Inr (r, h1) \<or> without_object h self ob = Inr (r, h1)"
  shows "take (length h) h1 = h
         \<and> is_ValuationMatrix h1 self m arr
         \<and> equals eq h1 self c = Inr True"
proof -
  from assms(4) obtain xs where h1: "h1 = h @ xs"
    using without_agent_extends without_object_extends by blast
  have "equals eq h1 self c = Inr (array_equal eq arr arrc)"
    unfolding h1
    by (rule equals_matrices)
      (rule is_ValuationMatrix_append, rule assms(1),
       rule is_ValuationMatrix_append, rule assms(2))
  moreover have "equals eq h self c = Inr (array_equal eq arr arrc)"
    by (rule equals_matrices) (rule assms(1), rule assms(2))
  ultimately have "equals eq h1 self c = Inr True" using assms(3) by simp
  then show ?thesis
    using h1 is_ValuationMatrix_append[OF assms(1)] by simp
qed

theorem reduction_leaves_source_unchanged_witness:
  "is_ValuationMatrix
     [Array \<lparr>ncols = 3, rows = [[1, 4, 7], [6, 3, 0 :: int]]\<rparr>,
      Matrix \<lparr>v = 0, num_of_agents = 2, num_of_objects = 3\<rparr>,
      Array \<lparr>ncols = 3, rows = [[1, 4, 7], [6, 3, 0]]\<rparr>,
      Matrix \<lparr>v = 2, num_of_agents = 2, num_of_objects = 3\<rparr>]
     1 \<lparr>v = 0, num_of_agents = 2, num_of_objects = 3\<rparr>
     \<lparr>ncols = 3, rows = [[1, 4, 7], [6, 3, 0]]\<rparr>
   \<and> without_agent
       [Array \<lparr>ncols = 3, rows = [[1, 4, 7], [6, 3, 0 :: int]]\<rparr>,
        Matrix \<lparr>v = 0, num_of_agents = 2, num_of_objects = 3\<rparr>,
        Array \<lparr>ncols = 3, rows = [[1, 4, 7], [6, 3, 0]]\<rparr>,
        Matrix \<lparr>v = 2, num_of_agents = 2, num_of_objects = 3\<rparr>] 1 0
     = Inr (5,
        [Array \<lparr>ncols = 3, rows = [[1, 4, 7], [6, 3, 0]]\<rparr>,
         Matrix \<lparr>v = 0, num_of_agents = 2, num_of_objects = 3\<rparr>,
         Array \<lparr>ncols = 3, rows = [[1, 4, 7], [6, 3, 0]]\<rparr>,
         Matrix \<lparr>v = 2, num_of_agents = 2, num_of_objects = 3\<rparr>,
         Array \<lparr>ncols = 3, rows = [[6, 3, 0]]\<rparr>,
         Matrix \<lparr>v = 4, num_of_agents = 1, num_of_objects = 3\<rparr>])
   \<and> is_ValuationMatrix
       [Array \<lparr>ncols = 3, rows = [[1, 4, 7], [6, 3, 0 :: int]]\<rparr>,
        Matrix \<lparr>v = 0, num_of_agents = 2, num_of_objects = 3\<rparr>,
        Array \<lparr>ncols = 3, rows = [[1, 4, 7], [6, 3, 0]]\<rparr>,
        Matrix \<lparr>v = 2, num_of_agents = 2, num_of_objects = 3\<rparr>,
        Array \<lparr>ncols = 3, rows = [[6, 3, 0]]\<rparr>,
        Matrix \<lparr>v = 4, num_of_agents = 1, num_of_objects = 3\<rparr>]
       1 \<lparr>v = 0, num_of_agents = 2, num_of_objects = 3\<rparr>
       \<lparr>ncols = 3, rows = [[1, 4, 7], [6, 3, 0]]\<rparr>
   \<and> equals (=)
       [Array \<lparr>ncols = 3, rows = [[1, 4, 7], [6, 3, 0 :: int]]\<rparr>,
        Matrix \<lparr>v = 0, num_of_agents = 2, num_of_objects = 3\<rparr>,
        Array \<lparr>ncols = 3, rows = [[1, 4, 7], [6, 3, 0]]\<rparr>,
        Matrix \<lparr>v = 2, num_of_agents = 2, num_of_objects = 3\<rparr>,
        Array \<lparr>ncols = 3, rows = [[6, 3, 0]]\<rparr>,
        Matrix \<lparr>v = 4, num_of_agents = 1, num_of_objects = 3\<rparr>] 1 3
     = Inr True"
proof -
  let ?A = "\<lparr>ncols = 3, rows = [[1, 4, 7], [6, 3, 0 :: int]]\<rparr>"
  let ?M = "\<lparr>v = 0, num_of_agents = 2, num_of_objects = 3\<rparr>"
  let ?C = "\<lparr>v = 2, num_of_agents = 2, num_of_objects = 3\<rparr>"
  let ?H = "[Array ?A, Matrix ?M, Array ?A, Matrix ?C]"
  let ?H' = "?H @ [Array \<lparr>ncols = 3, rows = [[6, 3, 0]]\<rparr>,
                    Matrix \<lparr>v = 4, num_of_agents = 1, num_of_objects = 3\<rparr>]"
  have m: "is_ValuationMatrix ?H 1 ?M ?A"
    by (simp add: is_ValuationMatrix_def wf_ndarray_def)
  have c: "is_ValuationMatrix ?H 3 ?C ?A"
    by (simp add: is_ValuationMatrix_def wf_ndarray_def)
  have e: "equals (=) ?H 1 3 = Inr True"
    by (simp add: equals_def attr_v_def as_array_def array_equal_def shape_def)
  have w: "without_agent ?H 1 0 = Inr (5, ?H')"
    by (simp add: without_agent_def attr_v_def as_array_def np_delete_axis0_def
        normalize_index_def delete_at_def ValuationMatrix_init_def getitem_row_def)
  have "without_agent ?H 1 0 = Inr (5, ?H') \<or> without_object ?H 1 0 = Inr (5, ?H')"
    using w by (rule disjI1)
  from reduction_leaves_source_unchanged [OF m c e this] m w
  show ?thesis by simp
qed

section \<open>Equality\<close>

lemma rows_eq_iff:
  assumes "wf_ndarray a1" "wf_ndarray a2" "shape a1 = shape a2"
  shows "list_all2 (\<lambda>r1 r2. list_all2 (\<lambda>x y. eq x y) r1 r2) (rows a1) (rows a2)
         \<longleftrightarrow> (\<forall>i < length (rows a1). \<forall>j < ncols a1.
                 eq (rows a1 ! i ! j) (rows a2 ! i ! j))"
proof -
  have len: "length (rows a1) = length (rows a2)" and nc: "ncols a1 = ncols a2"
    using assms(3) by (simp_all add: shape_def)
  have l1: "length (rows a1 ! i) = ncols a1" if "i < length (rows a1)" for i
    using assms(1) that by (simp add: wf_ndarray_def list_all_length)
  have l2: "length (rows a2 ! i) = ncols a1" if "i < length (rows a1)" for i
    using assms(2) that len nc by (simp add: wf_ndarray_def list_all_length)
  show ?thesis
    using len l1 l2 by (auto simp add: list_all2_conv_all_nth)
qed

lemma array_equal_iff:
  assumes "wf_ndarray a1" "wf_ndarray a2"
  shows "array_equal eq a1 a2 \<longleftrightarrow>
           shape a1 = shape a2
           \<and> (\<forall>i < length (rows a1). \<forall>j < ncols a1.
                 eq (rows a1 ! i ! j) (rows a2 ! i ! j))"
  using rows_eq_iff[OF assms, of eq] by (auto simp add: array_equal_def)

lemma array_equal_refl:
  assumes "list_all (\<lambda>row. list_all (\<lambda>x. eq x x) row) (rows a)"
  shows "array_equal eq a a"
  using assms
  by (simp add: array_equal_def list_all2_conv_all_nth list_all_length)

lemma array_equal_sym:
  assumes "\<forall>x y. eq x y = eq y x"
  shows "array_equal eq a1 a2 = array_equal eq a2 a1"
proof -
  have "list_all2 (\<lambda>r1 r2. list_all2 (\<lambda>x y. eq x y) r1 r2) xs ys
        = list_all2 (\<lambda>r1 r2. list_all2 (\<lambda>x y. eq x y) r1 r2) ys xs"
    for xs ys :: "'a list list"
    using assms by (auto simp add: list_all2_conv_all_nth)
  then show ?thesis by (auto simp add: array_equal_def)
qed

lemma np_eq_sym: "np_eq x y = np_eq y x"
  by (cases x; cases y) auto

text \<open>
  C6, as the code has it. The claim says that \<^verbatim>\<open>equals\<close> is true exactly when the
  shapes are the same and every pair of corresponding elements is exactly equal, and
  that it is reflexive and symmetric. The comparison of two elements is numpy's
  \<^verbatim>\<open>==\<close>, in which NaN is equal to nothing: for \<^verbatim>\<open>x = ValuationMatrix([[nan, 1.0]])\<close>
  the call \<^verbatim>\<open>x.equals(x)\<close> returns False (the counterexample below). What holds for
  two ValuationMatrix instances: \<^verbatim>\<open>equals\<close> returns true exactly when the two backing
  arrays have the same shape and every pair of corresponding elements is \<^verbatim>\<open>==\<close>, with
  no tolerance added; \<^verbatim>\<open>m.equals(m)\<close> is true exactly when every element of \<open>m\<close> is
  \<^verbatim>\<open>==\<close> to itself; and the two orders of the arguments give the same answer when
  \<^verbatim>\<open>==\<close> does.
\<close>

theorem equals_elementwise:
  assumes "is_ValuationMatrix h s1 m1 a1" and "is_ValuationMatrix h s2 m2 a2"
  shows "equals eq h s1 s2 =
           Inr (shape a1 = shape a2
                \<and> (\<forall>i < num_of_agents m1. \<forall>j < num_of_objects m1.
                      eq (rows a1 ! i ! j) (rows a2 ! i ! j)))
         \<and> equals eq h s1 s1 =
             Inr (\<forall>i < num_of_agents m1. \<forall>j < num_of_objects m1.
                    eq (rows a1 ! i ! j) (rows a1 ! i ! j))
         \<and> ((\<forall>x y. eq x y = eq y x) \<longrightarrow> equals eq h s2 s1 = equals eq h s1 s2)"
proof -
  have wf: "wf_ndarray a1" "wf_ndarray a2"
    and n: "num_of_agents m1 = length (rows a1)" "num_of_objects m1 = ncols a1"
    using assms by (simp_all add: is_ValuationMatrix_def)
  have e12: "equals eq h s1 s2 = Inr (array_equal eq a1 a2)"
    by (rule equals_matrices[OF assms])
  have e21: "equals eq h s2 s1 = Inr (array_equal eq a2 a1)"
    by (rule equals_matrices[OF assms(2) assms(1)])
  have e11: "equals eq h s1 s1 = Inr (array_equal eq a1 a1)"
    by (rule equals_matrices[OF assms(1) assms(1)])
  have c1: "equals eq h s1 s2 =
           Inr (shape a1 = shape a2
                \<and> (\<forall>i < num_of_agents m1. \<forall>j < num_of_objects m1.
                      eq (rows a1 ! i ! j) (rows a2 ! i ! j)))"
    using e12 array_equal_iff[OF wf, of eq] n by simp
  have c2: "equals eq h s1 s1 =
             Inr (\<forall>i < num_of_agents m1. \<forall>j < num_of_objects m1.
                    eq (rows a1 ! i ! j) (rows a1 ! i ! j))"
    using e11 array_equal_iff[OF wf(1) wf(1), of eq] n by simp
  have c3: "equals eq h s2 s1 = equals eq h s1 s2" if "\<forall>x y. eq x y = eq y x"
    using e12 e21 array_equal_sym[OF that, of a1 a2] by simp
  from c1 c2 c3 show ?thesis by blast
qed

theorem equals_elementwise_witness:
  "is_ValuationMatrix
     [Array \<lparr>ncols = 2, rows = [[Num 1, Num 4], [Num 6, Num (3 :: int)]]\<rparr>,
      Matrix \<lparr>v = 0, num_of_agents = 2, num_of_objects = 2\<rparr>,
      Array \<lparr>ncols = 2, rows = [[Num 1, Num 4], [Num 6, Num 3]]\<rparr>,
      Matrix \<lparr>v = 2, num_of_agents = 2, num_of_objects = 2\<rparr>]
     1 \<lparr>v = 0, num_of_agents = 2, num_of_objects = 2\<rparr>
     \<lparr>ncols = 2, rows = [[Num 1, Num 4], [Num 6, Num 3]]\<rparr>
   \<and> is_ValuationMatrix
     [Array \<lparr>ncols = 2, rows = [[Num 1, Num 4], [Num 6, Num (3 :: int)]]\<rparr>,
      Matrix \<lparr>v = 0, num_of_agents = 2, num_of_objects = 2\<rparr>,
      Array \<lparr>ncols = 2, rows = [[Num 1, Num 4], [Num 6, Num 3]]\<rparr>,
      Matrix \<lparr>v = 2, num_of_agents = 2, num_of_objects = 2\<rparr>]
     3 \<lparr>v = 2, num_of_agents = 2, num_of_objects = 2\<rparr>
     \<lparr>ncols = 2, rows = [[Num 1, Num 4], [Num 6, Num 3]]\<rparr>
   \<and> equals np_eq
     [Array \<lparr>ncols = 2, rows = [[Num 1, Num 4], [Num 6, Num (3 :: int)]]\<rparr>,
      Matrix \<lparr>v = 0, num_of_agents = 2, num_of_objects = 2\<rparr>,
      Array \<lparr>ncols = 2, rows = [[Num 1, Num 4], [Num 6, Num 3]]\<rparr>,
      Matrix \<lparr>v = 2, num_of_agents = 2, num_of_objects = 2\<rparr>] 1 3 = Inr True
   \<and> equals np_eq
     [Array \<lparr>ncols = 2, rows = [[Num 1, Num 4], [Num 6, Num (3 :: int)]]\<rparr>,
      Matrix \<lparr>v = 0, num_of_agents = 2, num_of_objects = 2\<rparr>,
      Array \<lparr>ncols = 2, rows = [[Num 1, Num 4], [Num 6, Num 3]]\<rparr>,
      Matrix \<lparr>v = 2, num_of_agents = 2, num_of_objects = 2\<rparr>] 1 1 = Inr True
   \<and> equals np_eq
     [Array \<lparr>ncols = 2, rows = [[Num 1, Num 4], [Num 6, Num (3 :: int)]]\<rparr>,
      Matrix \<lparr>v = 0, num_of_agents = 2, num_of_objects = 2\<rparr>,
      Array \<lparr>ncols = 2, rows = [[Num 1, Num 4], [Num 6, Num 3]]\<rparr>,
      Matrix \<lparr>v = 2, num_of_agents = 2, num_of_objects = 2\<rparr>] 3 1 = Inr True"
proof -
  let ?A = "\<lparr>ncols = 2, rows = [[Num 1, Num 4], [Num 6, Num (3 :: int)]]\<rparr>"
  let ?M = "\<lparr>v = 0, num_of_agents = 2, num_of_objects = 2\<rparr>"
  let ?C = "\<lparr>v = 2, num_of_agents = 2, num_of_objects = 2\<rparr>"
  let ?H = "[Array ?A, Matrix ?M, Array ?A, Matrix ?C]"
  have m: "is_ValuationMatrix ?H 1 ?M ?A"
    by (simp add: is_ValuationMatrix_def wf_ndarray_def)
  have c: "is_ValuationMatrix ?H 3 ?C ?A"
    by (simp add: is_ValuationMatrix_def wf_ndarray_def)
  have s: "\<forall>x y :: int scalar. np_eq x y = np_eq y x"
    using np_eq_sym by blast
  have two: "(\<forall>i<2::nat. P i) = (P 0 \<and> P 1)" for P
    by (auto simp add: numeral_2_eq_2 less_Suc_eq)
  from equals_elementwise [OF m c, of np_eq] s m c show ?thesis
    by (simp add: two shape_def)
qed

theorem nan_not_equal_counterexample:
  "ValuationMatrix_init [] (PyList [[NaN, Num (1 :: int)]])
     = Inr (1, [Array \<lparr>ncols = 2, rows = [[NaN, Num 1]]\<rparr>,
                Matrix \<lparr>v = 0, num_of_agents = 1, num_of_objects = 2\<rparr>])
   \<and> equals np_eq [Array \<lparr>ncols = 2, rows = [[NaN, Num (1 :: int)]]\<rparr>,
                    Matrix \<lparr>v = 0, num_of_agents = 1, num_of_objects = 2\<rparr>] 1 1
     = Inr False"
  by (simp add: ValuationMatrix_init_def np_array_def as_array_def attr_v_def getitem_row_def
      normalize_index_def equals_def array_equal_def shape_def)

section \<open>The three ways to construct\<close>

lemma init_Ref_matrix:
  assumes "is_ValuationMatrix h s m arr"
  shows "ValuationMatrix_init h (Ref s) =
           Inr (length h, h @ [Matrix \<lparr>v = v m, num_of_agents = num_of_agents m,
                                        num_of_objects = num_of_objects m\<rparr>])"
proof -
  from assms obtain r0 rs where r0: "rows arr = r0 # rs"
    by (cases "rows arr") (auto simp add: is_ValuationMatrix_def)
  have "length r0 = ncols arr"
    using assms r0 by (simp add: is_ValuationMatrix_def wf_ndarray_def)
  then show ?thesis
    using self_array[OF assms] assms r0
    by (simp add: ValuationMatrix_init_def getitem_row_def normalize_index_def
        is_ValuationMatrix_def)
qed

lemma init_PyList:
  assumes "t = r0 # rs" and "list_all (\<lambda>r. length r = length r0) rs"
  shows "ValuationMatrix_init h (PyList t) =
           Inr (Suc (length h),
                h @ [Array \<lparr>ncols = length r0, rows = t\<rparr>,
                     Matrix \<lparr>v = length h, num_of_agents = length t,
                             num_of_objects = length r0\<rparr>])"
  using assms
  by (simp add: ValuationMatrix_init_def np_array_def as_array_def getitem_row_def
      normalize_index_def)

text \<open>
  C7. Let \<open>t\<close> be a non-empty rectangular table of numbers (every element is \<^verbatim>\<open>==\<close>
  to itself, as every number is and NaN is not), let the heap hold a dense array of
  \<open>t\<close> at address \<open>r\<close> and a ValuationMatrix \<open>s\<close> whose backing array has the rows
  \<open>t\<close>. Constructing from the list of lists \<open>t\<close>, then from the array \<open>r\<close>, then from
  the instance \<open>s\<close>, succeeds three times; the three new instances have
  \<^verbatim>\<open>num_of_agents = len(t)\<close> and \<^verbatim>\<open>num_of_objects = len(t[0])\<close>, and any two of them
  are \<^verbatim>\<open>equals\<close>. The first one is on a new array, the second on the array \<open>r\<close>
  itself, the third shares the array of \<open>s\<close>.
\<close>

theorem construction_sources_agree:
  fixes h :: "'a heap"
  assumes "t \<noteq> []" and "list_all (\<lambda>r. length r = length (hd t)) t"
    and "r < length h" and "h ! r = Array \<lparr>ncols = length (hd t), rows = t\<rparr>"
    and "is_ValuationMatrix h s ms arrs" and "rows arrs = t"
    and "list_all (\<lambda>row. list_all (\<lambda>x. eq x x) row) t"
  defines "h1 \<equiv> h @ [Array \<lparr>ncols = length (hd t), rows = t\<rparr>,
                       Matrix \<lparr>v = length h, num_of_agents = length t,
                               num_of_objects = length (hd t)\<rparr>]"
  defines "h2 \<equiv> h1 @ [Matrix \<lparr>v = r, num_of_agents = length t,
                                num_of_objects = length (hd t)\<rparr>]"
  defines "h3 \<equiv> h2 @ [Matrix \<lparr>v = v ms, num_of_agents = length t,
                                num_of_objects = length (hd t)\<rparr>]"
  shows "ValuationMatrix_init h (PyList t) = Inr (length h + 1, h1)
         \<and> ValuationMatrix_init h1 (Ref r) = Inr (length h + 2, h2)
         \<and> ValuationMatrix_init h2 (Ref s) = Inr (length h + 3, h3)
         \<and> equals eq h3 (length h + 1) (length h + 2) = Inr True
         \<and> equals eq h3 (length h + 1) (length h + 3) = Inr True
         \<and> equals eq h3 (length h + 2) (length h + 3) = Inr True"
proof -
  let ?A = "\<lparr>ncols = length (hd t), rows = t\<rparr> :: 'a ndarray"
  from assms(1) obtain r0 rs where t: "t = r0 # rs" by (cases t) auto
  have rs: "list_all (\<lambda>r. length r = length r0) rs" using assms(2) t by simp
  have wfA: "wf_ndarray ?A" using assms(2) by (simp add: wf_ndarray_def)
  have arrs: "arrs = ?A"
    using assms(5,6) t by (simp add: is_ValuationMatrix_def wf_ndarray_def)
  have ms: "num_of_agents ms = length t" "num_of_objects ms = length (hd t)"
    using assms(5) arrs by (simp_all add: is_ValuationMatrix_def)
  have vs: "v ms < length h" "h ! v ms = Array ?A"
    using assms(5) arrs by (simp_all add: is_ValuationMatrix_def)
  have s1: "ValuationMatrix_init h (PyList t) = Inr (length h + 1, h1)"
    using init_PyList[OF t rs, of h] t by (simp add: h1_def)
  have "ValuationMatrix_init h1 (Ref r) =
          Inr (length h1, h1 @ [Matrix \<lparr>v = r, num_of_agents = length (rows ?A),
                                         num_of_objects = length r0\<rparr>])"
    by (rule init_Ref_array[where rs = rs])
      (use assms(3,4) t in \<open>simp_all add: h1_def nth_append\<close>)
  then have s2: "ValuationMatrix_init h1 (Ref r) = Inr (length h + 2, h2)"
    using t by (simp add: h2_def h1_def)
  have "is_ValuationMatrix h2 s ms arrs"
    unfolding h2_def h1_def using is_ValuationMatrix_append[OF assms(5)] by simp
  from init_Ref_matrix[OF this]
  have s3: "ValuationMatrix_init h2 (Ref s) = Inr (length h + 3, h3)"
    using ms by (simp add: h3_def h2_def h1_def)
  have m1: "is_ValuationMatrix h3 (length h + 1)
      \<lparr>v = length h, num_of_agents = length t, num_of_objects = length (hd t)\<rparr> ?A"
    using wfA assms(1) by (simp add: is_ValuationMatrix_def h3_def h2_def h1_def nth_append)
  have m2: "is_ValuationMatrix h3 (length h + 2)
      \<lparr>v = r, num_of_agents = length t, num_of_objects = length (hd t)\<rparr> ?A"
    using wfA assms(1,3,4)
    by (simp add: is_ValuationMatrix_def h3_def h2_def h1_def nth_append)
  have m3: "is_ValuationMatrix h3 (length h + 3)
      \<lparr>v = v ms, num_of_agents = length t, num_of_objects = length (hd t)\<rparr> ?A"
    using wfA assms(1) vs
    by (simp add: is_ValuationMatrix_def h3_def h2_def h1_def nth_append)
  have refl: "array_equal eq ?A ?A"
    by (rule array_equal_refl) (use assms(7) in simp)
  have e12: "equals eq h3 (length h + 1) (length h + 2) = Inr True"
    using equals_matrices[OF m1 m2, of eq] refl by simp
  have e13: "equals eq h3 (length h + 1) (length h + 3) = Inr True"
    using equals_matrices[OF m1 m3, of eq] refl by simp
  have e23: "equals eq h3 (length h + 2) (length h + 3) = Inr True"
    using equals_matrices[OF m2 m3, of eq] refl by simp
  from s1 s2 s3 e12 e13 e23 show ?thesis by blast
qed

theorem construction_sources_agree_witness:
  "is_ValuationMatrix
     [Array \<lparr>ncols = 3, rows = [[1, 4, 7], [6, 3, 0 :: int]]\<rparr>,
      Array \<lparr>ncols = 3, rows = [[1, 4, 7], [6, 3, 0]]\<rparr>,
      Matrix \<lparr>v = 1, num_of_agents = 2, num_of_objects = 3\<rparr>]
     2 \<lparr>v = 1, num_of_agents = 2, num_of_objects = 3\<rparr>
     \<lparr>ncols = 3, rows = [[1, 4, 7], [6, 3, 0]]\<rparr>
   \<and> ValuationMatrix_init
       [Array \<lparr>ncols = 3, rows = [[1, 4, 7], [6, 3, 0 :: int]]\<rparr>,
        Array \<lparr>ncols = 3, rows = [[1, 4, 7], [6, 3, 0]]\<rparr>,
        Matrix \<lparr>v = 1, num_of_agents = 2, num_of_objects = 3\<rparr>]
       (PyList [[1, 4, 7], [6, 3, 0]])
     = Inr (4,
        [Array \<lparr>ncols = 3, rows = [[1, 4, 7], [6, 3, 0]]\<rparr>,
         Array \<lparr>ncols = 3, rows = [[1, 4, 7], [6, 3, 0]]\<rparr>,
         Matrix \<lparr>v = 1, num_of_agents = 2, num_of_objects = 3\<rparr>,
         Array \<lparr>ncols = 3, rows = [[1, 4, 7], [6, 3, 0]]\<rparr>,
         Matrix \<lparr>v = 3, num_of_agents = 2, num_of_objects = 3\<rparr>])
   \<and> ValuationMatrix_init
       [Array \<lparr>ncols = 3, rows = [[1, 4, 7], [6, 3, 0 :: int]]\<rparr>,
        Array \<lparr>ncols = 3, rows = [[1, 4, 7], [6, 3, 0]]\<rparr>,
        Matrix \<lparr>v = 1, num_of_agents = 2, num_of_objects = 3\<rparr>,
        Array \<lparr>ncols = 3, rows = [[1, 4, 7], [6, 3, 0]]\<rparr>,
        Matrix \<lparr>v = 3, num_of_agents = 2, num_of_objects = 3\<rparr>]
       (Ref 0)
     = Inr (5,
        [Array \<lparr>ncols = 3, rows = [[1, 4, 7], [6, 3, 0]]\<rparr>,
         Array \<lparr>ncols = 3, rows = [[1, 4, 7], [6, 3, 0]]\<rparr>,
         Matrix \<lparr>v = 1, num_of_agents = 2, num_of_objects = 3\<rparr>,
         Array \<lparr>ncols = 3, rows = [[1, 4, 7], [6, 3, 0]]\<rparr>,
         Matrix \<lparr>v = 3, num_of_agents = 2, num_of_objects = 3\<rparr>,
         Matrix \<lparr>v = 0, num_of_agents = 2, num_of_objects = 3\<rparr>])
   \<and> ValuationMatrix_init
       [Array \<lparr>ncols = 3, rows = [[1, 4, 7], [6, 3, 0 :: int]]\<rparr>,
        Array \<lparr>ncols = 3, rows = [[1, 4, 7], [6, 3, 0]]\<rparr>,
        Matrix \<lparr>v = 1, num_of_agents = 2, num_of_objects = 3\<rparr>,
        Array \<lparr>ncols = 3, rows = [[1, 4, 7], [6, 3, 0]]\<rparr>,
        Matrix \<lparr>v = 3, num_of_agents = 2, num_of_objects = 3\<rparr>,
        Matrix \<lparr>v = 0, num_of_agents = 2, num_of_objects = 3\<rparr>]
       (Ref 2)
     = Inr (6,
        [Array \<lparr>ncols = 3, rows = [[1, 4, 7], [6, 3, 0]]\<rparr>,
         Array \<lparr>ncols = 3, rows = [[1, 4, 7], [6, 3, 0]]\<rparr>,
         Matrix \<lparr>v = 1, num_of_agents = 2, num_of_objects = 3\<rparr>,
         Array \<lparr>ncols = 3, rows = [[1, 4, 7], [6, 3, 0]]\<rparr>,
         Matrix \<lparr>v = 3, num_of_agents = 2, num_of_objects = 3\<rparr>,
         Matrix \<lparr>v = 0, num_of_agents = 2, num_of_objects = 3\<rparr>,
         Matrix \<lparr>v = 1, num_of_agents = 2, num_of_objects = 3\<rparr>])
   \<and> equals (=)
       [Array \<lparr>ncols = 3, rows = [[1, 4, 7], [6, 3, 0 :: int]]\<rparr>,
        Array \<lparr>ncols = 3, rows = [[1, 4, 7], [6, 3, 0]]\<rparr>,
        Matrix \<lparr>v = 1, num_of_agents = 2, num_of_objects = 3\<rparr>,
        Array \<lparr>ncols = 3, rows = [[1, 4, 7], [6, 3, 0]]\<rparr>,
        Matrix \<lparr>v = 3, num_of_agents = 2, num_of_objects = 3\<rparr>,
        Matrix \<lparr>v = 0, num_of_agents = 2, num_of_objects = 3\<rparr>,
        Matrix \<lparr>v = 1, num_of_agents = 2, num_of_objects = 3\<rparr>] 4 5 = Inr True
   \<and> equals (=)
       [Array \<lparr>ncols = 3, rows = [[1, 4, 7], [6, 3, 0 :: int]]\<rparr>,
        Array \<lparr>ncols = 3, rows = [[1, 4, 7], [6, 3, 0]]\<rparr>,
        Matrix \<lparr>v = 1, num_of_agents = 2, num_of_objects = 3\<rparr>,
        Array \<lparr>ncols = 3, rows = [[1, 4, 7], [6, 3, 0]]\<rparr>,
        Matrix \<lparr>v = 3, num_of_agents = 2, num_of_objects = 3\<rparr>,
        Matrix \<lparr>v = 0, num_of_agents = 2, num_of_objects = 3\<rparr>,
        Matrix \<lparr>v = 1, num_of_agents = 2, num_of_objects = 3\<rparr>] 4 6 = Inr True
   \<and> equals (=)
       [Array \<lparr>ncols = 3, rows = [[1, 4, 7], [6, 3, 0 :: int]]\<rparr>,
        Array \<lparr>ncols = 3, rows = [[1, 4, 7], [6, 3, 0]]\<rparr>,
        Matrix \<lparr>v = 1, num_of_agents = 2, num_of_objects = 3\<rparr>,
        Array \<lparr>ncols = 3, rows = [[1, 4, 7], [6, 3, 0]]\<rparr>,
        Matrix \<lparr>v = 3, num_of_agents = 2, num_of_objects = 3\<rparr>,
        Matrix \<lparr>v = 0, num_of_agents = 2, num_of_objects = 3\<rparr>,
        Matrix \<lparr>v = 1, num_of_agents = 2, num_of_objects = 3\<rparr>] 5 6 = Inr True"
proof -
  let ?T = "[[1, 4, 7], [6, 3, 0 :: int]]"
  let ?A = "\<lparr>ncols = 3, rows = ?T\<rparr>"
  let ?M = "\<lparr>v = 1, num_of_agents = 2, num_of_objects = 3\<rparr>"
  let ?H = "[Array ?A, Array ?A, Matrix ?M]"
  have m: "is_ValuationMatrix ?H 2 ?M ?A"
    by (simp add: is_ValuationMatrix_def wf_ndarray_def)
  have t1: "?T \<noteq> []" by simp
  have t2: "list_all (\<lambda>r. length r = length (hd ?T)) ?T" by simp
  have r1: "0 < length ?H" by simp
  have r2: "?H ! 0 = Array \<lparr>ncols = length (hd ?T), rows = ?T\<rparr>" by simp
  have t3: "rows ?A = ?T" by simp
  have t4: "list_all (\<lambda>row. list_all (\<lambda>x. x = x) row) ?T" by simp
  from construction_sources_agree [where eq = "(=)", OF t1 t2 r1 r2 m t3 t4] m
  show ?thesis by (simp add: eval_nat_numeral)
qed

section \<open>Object indices out of range\<close>

lemma bundle_values_wrap:
  assumes "is_ValuationMatrix h self m arr" "0 \<le> a" "a < int (num_of_agents m)"
  shows "bundle_values h self a B =
           (if \<exists>ob \<in> set B. ob < - int (num_of_objects m) \<or> int (num_of_objects m) \<le> ob
            then Inl IndexError
            else Inr (map (\<lambda>ob. rows arr ! nat a
                                   ! nat (if ob < 0 then ob + int (num_of_objects m) else ob))
                          B))"
proof (induction B)
  case Nil
  then show ?case by simp
next
  case (Cons ob B)
  have "value_at h self a ob =
          (if ob < - int (num_of_objects m) \<or> int (num_of_objects m) \<le> ob
           then Inl IndexError
           else Inr (rows arr ! nat a
                       ! nat (if ob < 0 then ob + int (num_of_objects m) else ob)))"
    using value_at_valid[OF assms, of ob] row_length[OF assms]
    by (simp add: getitem_elem_def normalize_index_def)
  with Cons.IH show ?case by simp
qed

text \<open>
  C8, as the code has it. The claim says that a bundle with an object index outside
  \<open>[0, num_of_objects)\<close> makes \<^verbatim>\<open>agent_value_for_bundle\<close> raise an index-range error.
  numpy reads a negative index from the end, so the doctest's matrix gives
  \<^verbatim>\<open>v.agent_value_for_bundle(0, [-1]) = 7\<close> (the counterexample below). For a valid
  agent index \<open>a\<close> the call raises IndexError exactly when some index of the bundle is
  outside \<open>[-num_of_objects, num_of_objects)\<close>. Otherwise it returns the sum over the
  bundle's items \<open>o\<close> of \<open>v[a][o]\<close> for \<open>o \<ge> 0\<close> and of \<open>v[a][num_of_objects + o]\<close> for
  \<open>o < 0\<close>: an index in \<open>[-num_of_objects, 0)\<close> counts from the end of the row.
\<close>

theorem agent_value_for_bundle_index_error:
  fixes h :: "('a::monoid_add) heap"
  assumes "is_ValuationMatrix h self m arr"
    and "0 \<le> a" and "a < int (num_of_agents m)"
  shows "agent_value_for_bundle h self a (Some B) =
           (if \<exists>ob \<in> set B. ob < - int (num_of_objects m) \<or> int (num_of_objects m) \<le> ob
            then Inl IndexError
            else Inr (sum_list
                        (map (\<lambda>ob. rows arr ! nat a
                                      ! nat (if ob < 0 then ob + int (num_of_objects m)
                                             else ob))
                             B)))
         \<and> (agent_value_for_bundle h self a (Some B) = Inl IndexError
              \<longleftrightarrow> (\<exists>ob \<in> set B. ob < - int (num_of_objects m)
                                   \<or> int (num_of_objects m) \<le> ob))"
  using bundle_values_wrap[OF assms, of B]
  by (simp add: agent_value_for_bundle_def py_sum_sum_list)

theorem agent_value_for_bundle_index_error_witness:
  "is_ValuationMatrix doctest_heap 1 \<lparr>v = 0, num_of_agents = 2, num_of_objects = 3\<rparr>
     \<lparr>ncols = 3, rows = [[1, 4, 7], [6, 3, 0]]\<rparr>
   \<and> agent_value_for_bundle doctest_heap 1 0 (Some [0, 5]) = Inl IndexError
   \<and> agent_value_for_bundle doctest_heap 1 0 (Some [0, -4]) = Inl IndexError
   \<and> agent_value_for_bundle doctest_heap 1 0 (Some [0, -3]) = Inr 2
   \<and> agent_value_for_bundle doctest_heap 1 0 (Some [-1, -2, 1]) = Inr 15
   \<and> agent_value_for_bundle doctest_heap 1 1 (Some [-3, 2]) = Inr 6"
  using agent_value_for_bundle_index_error [OF doctest_heap_matrix, of 0 "[0, 5]"]
    agent_value_for_bundle_index_error [OF doctest_heap_matrix, of 0 "[0, -4]"]
    agent_value_for_bundle_index_error [OF doctest_heap_matrix, of 0 "[0, -3]"]
    agent_value_for_bundle_index_error [OF doctest_heap_matrix, of 0 "[-1, -2, 1]"]
    agent_value_for_bundle_index_error [OF doctest_heap_matrix, of 1 "[-3, 2]"]
    doctest_heap_matrix
  by simp

theorem negative_index_counterexample:
  "(-1 :: int) < 0
   \<and> agent_value_for_bundle doctest_heap 1 0 (Some [-1]) = Inr 7"
  by (simp add: agent_value_for_bundle_def value_at_def attr_v_def as_array_def
      getitem_row_def getitem_elem_def normalize_index_def py_sum_def doctest_heap_def)

end
